theory Spec2Isabelle
  imports Complex_Main
begin

section \<open>JavaScript values\<close>

text \<open>
  The values that \<^verbatim>\<open>JSON.parse\<close> produces. A number is represented by an integer: the
  code under study only tests numbers for being zero, compares validated integers, and
  renders validated integers in decimal. An object is the list of its own properties,
  each key occurring once. \<^verbatim>\<open>undefined\<close> is not a JSON value; reading a property
  yields an optional value, \<open>None\<close> standing for \<^verbatim>\<open>undefined\<close>.
\<close>

datatype json =
    JNull
  | JBool bool
  | JNum int
  | JStr string
  | JArr "json list"
  | JObj "(string \<times> json) list"

datatype exn = TypeError | SyntaxError | Error string

text \<open>\<^verbatim>\<open>try { body } catch (error) { handler }\<close>\<close>

definition try_catch :: "exn + 'a \<Rightarrow> (exn \<Rightarrow> exn + 'a) \<Rightarrow> exn + 'a" where
  "try_catch body handler = (case body of Inl e \<Rightarrow> handler e | Inr v \<Rightarrow> Inr v)"

text \<open>Sequencing of statements that may throw.\<close>

definition bind_exn :: "exn + 'a \<Rightarrow> ('a \<Rightarrow> exn + 'b) \<Rightarrow> exn + 'b" where
  "bind_exn m f = (case m of Inl e \<Rightarrow> Inl e | Inr v \<Rightarrow> f v)"

text \<open>Truthiness of a value.\<close>

fun truthy :: "json \<Rightarrow> bool" where
  "truthy JNull = False"
| "truthy (JBool b) = b"
| "truthy (JNum n) = (n \<noteq> 0)"
| "truthy (JStr s) = (s \<noteq> [])"
| "truthy (JArr xs) = True"
| "truthy (JObj kvs) = True"

text \<open>
  \<^verbatim>\<open>v.k\<close> for one of the property names the code reads (\<^verbatim>\<open>options\<close>, \<^verbatim>\<open>question\<close>,
  \<^verbatim>\<open>correctAnswer\<close>, \<^verbatim>\<open>explanation\<close>, \<^verbatim>\<open>id\<close>, \<^verbatim>\<open>text\<close>): a TypeError on
  \<^verbatim>\<open>null\<close>, the property of an object, and \<^verbatim>\<open>undefined\<close> on every other value
  (none of these names is a property of a boolean, number, string or array).
\<close>

fun get_prop :: "json \<Rightarrow> string \<Rightarrow> exn + json option" where
  "get_prop JNull k = Inl TypeError"
| "get_prop (JObj kvs) k = Inr (map_of kvs k)"
| "get_prop v k = Inr None"

text \<open>\<^verbatim>\<open>x || d\<close> where \<^verbatim>\<open>x\<close> may be undefined.\<close>

definition or_default :: "json option \<Rightarrow> json \<Rightarrow> json" where
  "or_default x d = (case x of Some v \<Rightarrow> (if truthy v then v else d) | None \<Rightarrow> d)"

text \<open>\<^verbatim>\<open>xs.slice(0, n)\<close>: a negative end counts from the end of the array.\<close>

definition slice0 :: "'a list \<Rightarrow> int \<Rightarrow> 'a list" where
  "slice0 xs n = (if n < 0 then take (nat (int (length xs) + n)) xs else take (nat n) xs)"

text \<open>
  Decimal rendering of an integer, as template literals and string concatenation render a
  JavaScript integer of magnitude below \<open>10^21\<close>.
\<close>

definition digit_char :: "nat \<Rightarrow> char" where
  "digit_char d = char_of (48 + d)"

fun digits :: "nat \<Rightarrow> string" where
  "digits n = (if n < 10 then [digit_char n] else digits (n div 10) @ [digit_char (n mod 10)])"

declare digits.simps [simp del]

definition num_str :: "int \<Rightarrow> string" where
  "num_str i = (if i < 0 then CHR ''-'' # digits (nat (- i)) else digits (nat i))"

section \<open>Difficulty adapter (backend/src/routes/llm.js, lines 61-73)\<close>

text \<open>
  \<^verbatim>\<open>
  let adjustedDifficulty = difficulty;
  if (previousScore !== undefined && attemptNumber > 0) {
    const scorePercentage = previousScore;
    if (scorePercentage >= 80 && difficulty !== 'hard') {
      adjustedDifficulty = difficulty === 'easy' ? 'medium' : 'hard';
    } else if (scorePercentage <= 40 && difficulty !== 'easy') {
      adjustedDifficulty = difficulty === 'hard' ? 'medium' : 'easy';
    }
  }
  \<close>
\<close>

definition adjustedDifficulty :: "string \<Rightarrow> int option \<Rightarrow> int \<Rightarrow> string" where
  "adjustedDifficulty difficulty previousScore attemptNumber =
     (case previousScore of
        None \<Rightarrow> difficulty
      | Some scorePercentage \<Rightarrow>
          if attemptNumber > 0 then
            (if scorePercentage \<ge> 80 \<and> difficulty \<noteq> ''hard'' then
               (if difficulty = ''easy'' then ''medium'' else ''hard'')
             else if scorePercentage \<le> 40 \<and> difficulty \<noteq> ''easy'' then
               (if difficulty = ''hard'' then ''medium'' else ''easy'')
             else difficulty)
          else difficulty)"

text \<open>The position of a difficulty in the order easy, medium, hard.\<close>

definition level :: "string \<Rightarrow> int" where
  "level d = (if d = ''easy'' then 0 else if d = ''medium'' then 1 else 2)"

definition difficulties :: "string set" where
  "difficulties = {''easy'', ''medium'', ''hard''}"

section \<open>Cache key (backend/src/routes/llm.js, lines 82-83)\<close>

text \<open>
  \<^verbatim>\<open>Buffer.from(content).toString('base64')\<close>. A string is a list of 8-bit characters;
  for text within ASCII this list is at once the UTF-16 code units whose number
  \<^verbatim>\<open>content.length\<close> counts and the UTF-8 bytes that \<^verbatim>\<open>Buffer.from\<close> produces.
\<close>

definition b64_alphabet :: string where
  "b64_alphabet = ''ABCDEFGHIJKLMNOPQRSTUVWXYZabcdefghijklmnopqrstuvwxyz0123456789+/''"

definition b64_char :: "nat \<Rightarrow> char" where
  "b64_char n = b64_alphabet ! n"

fun base64 :: "string \<Rightarrow> string" where
  "base64 (a # b # c # rest) =
     (let x = of_char a; y = of_char b; z = of_char c :: nat in
      [b64_char (x div 4), b64_char ((x mod 4) * 16 + y div 16),
       b64_char ((y mod 16) * 4 + z div 64), b64_char (z mod 64)]) @ base64 rest"
| "base64 [a, b] =
     (let x = of_char a; y = of_char b :: nat in
      [b64_char (x div 4), b64_char ((x mod 4) * 16 + y div 16),
       b64_char ((y mod 16) * 4), CHR ''=''])"
| "base64 [a] =
     (let x = of_char a :: nat in
      [b64_char (x div 4), b64_char ((x mod 4) * 16), CHR ''='', CHR ''=''])"
| "base64 [] = []"

text \<open>
  \<^verbatim>\<open>
  const contentHash = Buffer.from(content).toString('base64').slice(0, 32);
  const cacheKey = `questions:${contentHash}:${adjustedDifficulty}:${questionCount}:${attemptNumber}:${userId || 'anonymous'}`;
  \<close>
\<close>

definition contentHash :: "string \<Rightarrow> string" where
  "contentHash content = take 32 (base64 content)"

definition cacheKey :: "string \<Rightarrow> string \<Rightarrow> int \<Rightarrow> int \<Rightarrow> string option \<Rightarrow> string" where
  "cacheKey content adjDifficulty questionCount attemptNumber userId =
     ''questions:'' @ contentHash content @ '':'' @ adjDifficulty @ '':'' @ num_str questionCount
       @ '':'' @ num_str attemptNumber @ '':''
       @ (case userId of Some u \<Rightarrow> (if u \<noteq> [] then u else ''anonymous'') | None \<Rightarrow> ''anonymous'')"

text \<open>
  The question cache key of the cache service (backend/src/services/cache.js, lines
  146-149) fingerprints the whole content with MD5; the digest is a parameter here.
  \<^verbatim>\<open>
  generateQuestionsCacheKey: (content, difficulty, questionCount) => {
    const contentHash = require('crypto').createHash('md5').update(content).digest('hex');
    return `questions:${contentHash}:${difficulty}:${questionCount}`;
  }
  \<close>
\<close>

definition generateQuestionsCacheKey :: "(string \<Rightarrow> string) \<Rightarrow> string \<Rightarrow> string \<Rightarrow> int \<Rightarrow> string" where
  "generateQuestionsCacheKey md5_hex content difficulty questionCount =
     ''questions:'' @ md5_hex content @ '':'' @ difficulty @ '':'' @ num_str questionCount"

section \<open>Request validation (backend/src/routes/llm.js, lines 21-30 and 42-48)\<close>

text \<open>
  The request body after JSON decoding. Each field is optional; a field that is present
  has the primitive type its schema key names, numbers being integers. The keys of the
  body that the schema does not name are listed in \<open>b_unknown\<close>.
\<close>

record body =
  b_content :: "string option"
  b_questionCount :: "int option"
  b_difficulty :: "string option"
  b_language :: "string option"
  b_questionType :: "string option"
  b_attemptNumber :: "int option"
  b_previousScore :: "int option"
  b_userId :: "string option"
  b_unknown :: "string list"

text \<open>The validated value: the body with the schema's defaults filled in.\<close>

record request =
  v_content :: string
  v_questionCount :: int
  v_difficulty :: string
  v_language :: string
  v_questionType :: string
  v_attemptNumber :: int
  v_previousScore :: "int option"
  v_userId :: "string option"

text \<open>One entry of Joi's \<^verbatim>\<open>error.details\<close>: the key and the type of the error.\<close>

datatype violation = Violation (v_path: string) (v_type: string)

text \<open>
  \<^verbatim>\<open>Joi.string().min(lo).max(hi)\<close>, with \<^verbatim>\<open>.required()\<close> or optional. A Joi string
  is not allowed to be empty.
\<close>

definition joi_string :: "string \<Rightarrow> bool \<Rightarrow> nat option \<Rightarrow> nat option \<Rightarrow> string option \<Rightarrow> violation list" where
  "joi_string key required lo hi x =
     (case x of
        None \<Rightarrow> (if required then [Violation key ''any.required''] else [])
      | Some s \<Rightarrow>
          if s = [] then [Violation key ''string.empty'']
          else if (case lo of Some l \<Rightarrow> length s < l | None \<Rightarrow> False) then [Violation key ''string.min'']
          else if (case hi of Some h \<Rightarrow> h < length s | None \<Rightarrow> False) then [Violation key ''string.max'']
          else [])"

text \<open>\<^verbatim>\<open>Joi.string().valid(...)\<close>, optional.\<close>

definition joi_valid :: "string \<Rightarrow> string list \<Rightarrow> string option \<Rightarrow> violation list" where
  "joi_valid key allowed x =
     (case x of
        None \<Rightarrow> []
      | Some s \<Rightarrow> (if s \<in> set allowed then [] else [Violation key ''any.only'']))"

text \<open>
  \<^verbatim>\<open>Joi.number().integer().min(lo).max(hi)\<close>, optional. Joi rejects a number outside
  the safe integer range before it applies the rules.
\<close>

definition MAX_SAFE_INTEGER :: int where
  "MAX_SAFE_INTEGER = 9007199254740991"

definition joi_integer :: "string \<Rightarrow> int option \<Rightarrow> int option \<Rightarrow> int option \<Rightarrow> violation list" where
  "joi_integer key lo hi x =
     (case x of
        None \<Rightarrow> []
      | Some n \<Rightarrow>
          if n > MAX_SAFE_INTEGER \<or> n < - MAX_SAFE_INTEGER then [Violation key ''number.unsafe'']
          else if (case lo of Some l \<Rightarrow> n < l | None \<Rightarrow> False) then [Violation key ''number.min'']
          else if (case hi of Some h \<Rightarrow> h < n | None \<Rightarrow> False) then [Violation key ''number.max'']
          else [])"

text \<open>
  Every violation of the schema, key by key in the order of the schema, the keys the
  schema does not know last:
  \<^verbatim>\<open>
  const generateQuestionsSchema = Joi.object({
    content: Joi.string().min(100).max(50000).required(),
    questionCount: Joi.number().integer().min(1).max(10).default(3),
    difficulty: Joi.string().valid('easy', 'medium', 'hard').default('medium'),
    language: Joi.string().valid('id', 'en').default('id'),
    questionType: Joi.string().valid('multiple-choice', 'true-false', 'short-answer').default('multiple-choice'),
    attemptNumber: Joi.number().integer().min(0).default(0),
    previousScore: Joi.number().integer().min(0).max(100).optional(),
    userId: Joi.string().optional()
  });
  \<close>
\<close>

definition violations :: "body \<Rightarrow> violation list" where
  "violations b =
     joi_string ''content'' True (Some 100) (Some 50000) (b_content b)
     @ joi_integer ''questionCount'' (Some 1) (Some 10) (b_questionCount b)
     @ joi_valid ''difficulty'' [''easy'', ''medium'', ''hard''] (b_difficulty b)
     @ joi_valid ''language'' [''id'', ''en''] (b_language b)
     @ joi_valid ''questionType'' [''multiple-choice'', ''true-false'', ''short-answer''] (b_questionType b)
     @ joi_integer ''attemptNumber'' (Some 0) None (b_attemptNumber b)
     @ joi_integer ''previousScore'' (Some 0) (Some 100) (b_previousScore b)
     @ joi_string ''userId'' False None None (b_userId b)
     @ map (\<lambda>k. Violation k ''object.unknown'') (b_unknown b)"

definition with_defaults :: "body \<Rightarrow> request" where
  "with_defaults b =
     \<lparr> v_content = (case b_content b of Some s \<Rightarrow> s | None \<Rightarrow> []),
       v_questionCount = (case b_questionCount b of Some n \<Rightarrow> n | None \<Rightarrow> 3),
       v_difficulty = (case b_difficulty b of Some s \<Rightarrow> s | None \<Rightarrow> ''medium''),
       v_language = (case b_language b of Some s \<Rightarrow> s | None \<Rightarrow> ''id''),
       v_questionType = (case b_questionType b of Some s \<Rightarrow> s | None \<Rightarrow> ''multiple-choice''),
       v_attemptNumber = (case b_attemptNumber b of Some n \<Rightarrow> n | None \<Rightarrow> 0),
       v_previousScore = b_previousScore b,
       v_userId = b_userId b \<rparr>"

text \<open>
  \<^verbatim>\<open>schema.validate(body, { abortEarly })\<close>: with \<^verbatim>\<open>abortEarly\<close> the validation stops at
  the first error, otherwise it returns all the errors found.
\<close>

definition joi_validate :: "bool \<Rightarrow> body \<Rightarrow> violation list + request" where
  "joi_validate abortEarly b =
     (case violations b of
        [] \<Rightarrow> Inr (with_defaults b)
      | v # vs \<Rightarrow> Inl (if abortEarly then [v] else v # vs))"

text \<open>
  \<^verbatim>\<open>const { error, value } = generateQuestionsSchema.validate(req.body);\<close>
  The call passes no options, and \<^verbatim>\<open>abortEarly\<close> is true by default.
\<close>

definition generateQuestionsSchema_validate :: "body \<Rightarrow> violation list + request" where
  "generateQuestionsSchema_validate b = joi_validate True b"

section \<open>Response normalization (backend/src/routes/llm.js, lines 246-311)\<close>

text \<open>\<^verbatim>\<open>typeof v === 'object'\<close>, which holds of \<^verbatim>\<open>null\<close> too.\<close>

fun typeof_object :: "json \<Rightarrow> bool" where
  "typeof_object JNull = True"
| "typeof_object (JArr xs) = True"
| "typeof_object (JObj kvs) = True"
| "typeof_object v = False"

text \<open>\<^verbatim>\<open>typeof opt === 'object' && opt.k\<close>; \<open>None\<close> stands for a falsy outcome.\<close>

definition object_and_prop :: "json \<Rightarrow> string \<Rightarrow> exn + json option" where
  "object_and_prop opt k = (if typeof_object opt then get_prop opt k else Inr None)"

text \<open>\<^verbatim>\<open>String.fromCharCode(65 + i)\<close>\<close>

definition letter :: "nat \<Rightarrow> string" where
  "letter i = [char_of (65 + i)]"

text \<open>
  \<^verbatim>\<open>
  .map((opt, optIndex) => ({
    id: typeof opt === 'object' && opt.id ? opt.id : String.fromCharCode(65 + optIndex),
    text: typeof opt === 'object' && opt.text ? opt.text : (typeof opt === 'string' ? opt : `Opsi ${optIndex + 1}`)
  }));
  \<close>
\<close>

definition normalize_option :: "json \<Rightarrow> nat \<Rightarrow> exn + json" where
  "normalize_option opt optIndex =
     bind_exn (object_and_prop opt ''id'') (\<lambda>oid.
     bind_exn (object_and_prop opt ''text'') (\<lambda>otext.
       Inr (JObj [(''id'', or_default oid (JStr (letter optIndex))),
                  (''text'', or_default otext
                     (case opt of JStr s \<Rightarrow> JStr s
                      | _ \<Rightarrow> JStr (''Opsi '' @ num_str (int optIndex + 1))))])))"

text \<open>
  \<^verbatim>\<open>
  while (normalizedOptions.length < 4) {
    const nextId = String.fromCharCode(65 + normalizedOptions.length);
    normalizedOptions.push({ id: nextId, text: `Opsi ${nextId}` });
  }
  \<close>
\<close>

function pad_options :: "json list \<Rightarrow> json list" where
  "pad_options normalizedOptions =
     (if length normalizedOptions < 4 then
        (let nextId = letter (length normalizedOptions) in
         pad_options (normalizedOptions @ [JObj [(''id'', JStr nextId), (''text'', JStr (''Opsi '' @ nextId))]]))
      else normalizedOptions)"
  by pat_completeness auto
termination
  by (relation "measure (\<lambda>os. 4 - length os)") auto

declare pad_options.simps [simp del]

text \<open>An array's \<^verbatim>\<open>map\<close> with a callback that may throw: the first exception ends it.\<close>

fun sequence_exn :: "(exn + 'a) list \<Rightarrow> exn + 'a list" where
  "sequence_exn [] = Inr []"
| "sequence_exn (x # xs) = bind_exn x (\<lambda>v. bind_exn (sequence_exn xs) (\<lambda>vs. Inr (v # vs)))"

definition map_index_exn :: "('a \<Rightarrow> nat \<Rightarrow> exn + 'b) \<Rightarrow> 'a list \<Rightarrow> exn + 'b list" where
  "map_index_exn f xs = sequence_exn (map (\<lambda>(i, x). f x i) (enumerate 0 xs))"

text \<open>
  The callback of \<^verbatim>\<open>questions.slice(0, expectedCount).map((q, index) => ...)\<close>:
  \<^verbatim>\<open>
  const normalizedOptions = (Array.isArray(q.options) ? q.options : [])
    .slice(0, 4)
    .map(...);
  while (normalizedOptions.length < 4) { ... }
  return {
    id: index + 1,
    question: q.question || `Soal ${index + 1}`,
    options: normalizedOptions,
    correctAnswer: q.correctAnswer || "A",
    explanation: q.explanation || "Penjelasan belum tersedia."
  };
  \<close>
\<close>

definition normalize_question :: "json \<Rightarrow> nat \<Rightarrow> exn + json" where
  "normalize_question q index =
     bind_exn (get_prop q ''options'') (\<lambda>qoptions.
     bind_exn (map_index_exn normalize_option
                 (slice0 (case qoptions of Some (JArr os) \<Rightarrow> os | _ \<Rightarrow> []) 4)) (\<lambda>normalizedOptions.
     bind_exn (get_prop q ''question'') (\<lambda>qquestion.
     bind_exn (get_prop q ''correctAnswer'') (\<lambda>qcorrect.
     bind_exn (get_prop q ''explanation'') (\<lambda>qexplanation.
       Inr (JObj [(''id'', JNum (int index + 1)),
                  (''question'', or_default qquestion (JStr (''Soal '' @ num_str (int index + 1)))),
                  (''options'', JArr (pad_options normalizedOptions)),
                  (''correctAnswer'', or_default qcorrect (JStr ''A'')),
                  (''explanation'', or_default qexplanation (JStr ''Penjelasan belum tersedia.''))]))))))"

text \<open>
  \<open>parseGeminiResponse\<close>. The cleaning of the text by regular expressions and
  \<^verbatim>\<open>JSON.parse\<close> are library calls: the first argument is the outcome of
  \<^verbatim>\<open>JSON.parse(cleanText)\<close>, an exception when the text is not JSON. The result
  \<open>None\<close> is the \<^verbatim>\<open>null\<close> that the function returns from its \<^verbatim>\<open>catch\<close>.
  \<^verbatim>\<open>
  try {
    ...
    const questions = JSON.parse(cleanText);
    if (!Array.isArray(questions)) {
      return [questions].slice(0, expectedCount);
    }
    if (questions.length === 0) {
      throw new Error('Empty questions array');
    }
    const validQuestions = questions.slice(0, expectedCount).map((q, index) => { ... });
    return validQuestions;
  } catch (error) {
    return null;
  }
  \<close>
\<close>

definition parseGeminiResponse :: "exn + json \<Rightarrow> int \<Rightarrow> exn + json list option" where
  "parseGeminiResponse parsed expectedCount =
     try_catch
       (bind_exn parsed (\<lambda>questions.
          case questions of
            JArr qs \<Rightarrow>
              if length qs = 0 then Inl (Error ''Empty questions array'')
              else bind_exn (map_index_exn normalize_question (slice0 qs expectedCount))
                     (\<lambda>validQuestions. Inr (Some validQuestions))
          | _ \<Rightarrow> Inr (Some (slice0 [questions] expectedCount))))
       (\<lambda>e. Inr None)"


section \<open>Fallback questions (backend/src/routes/llm.js, lines 314-355)\<close>

definition mk_option :: "string \<Rightarrow> string \<Rightarrow> json" where
  "mk_option i t = JObj [(''id'', JStr i), (''text'', JStr t)]"

definition mk_question :: "int \<Rightarrow> string \<Rightarrow> json list \<Rightarrow> string \<Rightarrow> string \<Rightarrow> json" where
  "mk_question i q os c e =
     JObj [(''id'', JNum i), (''question'', JStr q), (''options'', JArr os),
           (''correctAnswer'', JStr c), (''explanation'', JStr e)]"

definition fallback_questions :: "json list" where
  "fallback_questions =
     [ mk_question 1
         ''Apa keuntungan utama menggunakan React Hooks dibandingkan dengan Class Components?''
         [ mk_option ''A'' ''Lebih cepat dalam rendering'',
           mk_option ''B'' ''Syntax lebih sederhana dan mudah dipahami'',
           mk_option ''C'' ''Mendukung lebih banyak lifecycle methods'',
           mk_option ''D'' ''Kompatibilitas yang lebih baik dengan browser lama'' ]
         ''B''
         ''React Hooks memberikan syntax yang lebih clean dan mudah dipahami untuk state management dan side effects, membuat code lebih readable dan maintainable.'',
       mk_question 2
         ''Kapan sebaiknya menggunakan useEffect() dalam React?''
         [ mk_option ''A'' ''Hanya untuk API calls'',
           mk_option ''B'' ''Setiap kali ada state yang berubah'',
           mk_option ''C'' ''Untuk side effects seperti data fetching, subscriptions, atau DOM manipulation'',
           mk_option ''D'' ''Hanya di komponen class'' ]
         ''C''
         ''useEffect adalah hook untuk menangani side effects dalam functional components, termasuk data fetching, event listeners, dan cleanup operations.'',
       mk_question 3
         ''Apa perbedaan antara props dan state dalam React?''
         [ mk_option ''A'' ''Props bersifat mutable, state immutable'',
           mk_option ''B'' ''Props untuk data dari parent, state untuk data internal component'',
           mk_option ''C'' ''Props hanya untuk class components'',
           mk_option ''D'' ''Tidak ada perbedaan, keduanya sama'' ]
         ''B''
         ''Props adalah data yang diberikan dari parent component dan bersifat read-only, sedangkan state adalah data internal yang dapat diubah oleh component itu sendiri.'' ]"

text \<open>\<^verbatim>\<open>function getFallbackQuestions(count = 3) { ...; return fallback.slice(0, count); }\<close>\<close>

definition getFallbackQuestions :: "int \<Rightarrow> json list" where
  "getFallbackQuestions count = slice0 fallback_questions count"

section \<open>Cache service (backend/src/services/cache.js)\<close>

text \<open>
  \<^verbatim>\<open>JSON.parse\<close> and \<^verbatim>\<open>JSON.stringify\<close> are library functions and parameters of the
  model. \<^verbatim>\<open>JSON.parse\<close> converts its argument to a string first, so it takes a value.
\<close>

record lib =
  JSON_parse :: "json \<Rightarrow> exn + json"
  JSON_stringify :: "json \<Rightarrow> string"

text \<open>
  The module's state: whether \<^verbatim>\<open>client\<close> is not \<^verbatim>\<open>null\<close>, the flag
  \<^verbatim>\<open>isConnected\<close>, and the Redis server behind the client: the texts it holds and, when
  it is out of order, the error with which every call of the client is rejected. The
  expiry of an entry after its time to live is a matter of real time and is not part of
  the state.
\<close>

record redis =
  client_present :: bool
  isConnected :: bool
  failure :: "exn option"
  store :: "string \<rightharpoonup> string"

definition client_get :: "redis \<Rightarrow> string \<Rightarrow> exn + string option" where
  "client_get r key = (case failure r of Some e \<Rightarrow> Inl e | None \<Rightarrow> Inr (store r key))"

definition client_setEx :: "redis \<Rightarrow> string \<Rightarrow> int \<Rightarrow> string \<Rightarrow> exn + redis" where
  "client_setEx r key ttl v =
     (case failure r of Some e \<Rightarrow> Inl e | None \<Rightarrow> Inr (r\<lparr>store := (store r)(key \<mapsto> v)\<rparr>))"

definition client_del :: "redis \<Rightarrow> string \<Rightarrow> exn + redis" where
  "client_del r key =
     (case failure r of Some e \<Rightarrow> Inl e | None \<Rightarrow> Inr (r\<lparr>store := (store r)(key := None)\<rparr>))"

definition client_exists :: "redis \<Rightarrow> string \<Rightarrow> exn + int" where
  "client_exists r key =
     (case failure r of Some e \<Rightarrow> Inl e | None \<Rightarrow> Inr (if key \<in> dom (store r) then 1 else 0))"

definition client_flushAll :: "redis \<Rightarrow> exn + redis" where
  "client_flushAll r = (case failure r of Some e \<Rightarrow> Inl e | None \<Rightarrow> Inr (r\<lparr>store := Map.empty\<rparr>))"

text \<open>\<^verbatim>\<open>isAvailable: () => { return client && isConnected; }\<close>\<close>

definition isAvailable :: "redis \<Rightarrow> bool" where
  "isAvailable r = (client_present r \<and> isConnected r)"

text \<open>
  \<^verbatim>\<open>
  get: async (key) => {
    try {
      if (!cache.isAvailable()) { return null; }
      const value = await client.get(key);
      if (value) { return JSON.parse(value); }
      return null;
    } catch (error) { return null; }
  }
  \<close>
\<close>

definition cache_get :: "lib \<Rightarrow> redis \<Rightarrow> string \<Rightarrow> exn + json" where
  "cache_get js r key =
     try_catch
       (if \<not> isAvailable r then Inr JNull
        else bind_exn (client_get r key) (\<lambda>v.
          case v of
            Some s \<Rightarrow> (if s \<noteq> [] then JSON_parse js (JStr s) else Inr JNull)
          | None \<Rightarrow> Inr JNull))
       (\<lambda>e. Inr JNull)"

text \<open>
  \<^verbatim>\<open>
  set: async (key, value, ttl = 3600) => {
    try {
      if (!cache.isAvailable()) { return false; }
      const serializedValue = JSON.stringify(value);
      await client.setEx(key, ttl, serializedValue);
      return true;
    } catch (error) { return false; }
  }
  \<close>
  The result is paired with the state that the operation leaves.
\<close>

definition cache_set :: "lib \<Rightarrow> redis \<Rightarrow> string \<Rightarrow> json \<Rightarrow> int \<Rightarrow> exn + bool \<times> redis" where
  "cache_set js r key v ttl =
     try_catch
       (if \<not> isAvailable r then Inr (False, r)
        else bind_exn (client_setEx r key ttl (JSON_stringify js v)) (\<lambda>r'. Inr (True, r')))
       (\<lambda>e. Inr (False, r))"

text \<open>
  \<^verbatim>\<open>
  del: async (key) => {
    try {
      if (!cache.isAvailable()) { return false; }
      await client.del(key);
      return true;
    } catch (error) { return false; }
  }
  \<close>
\<close>

definition cache_del :: "redis \<Rightarrow> string \<Rightarrow> exn + bool \<times> redis" where
  "cache_del r key =
     try_catch
       (if \<not> isAvailable r then Inr (False, r)
        else bind_exn (client_del r key) (\<lambda>r'. Inr (True, r')))
       (\<lambda>e. Inr (False, r))"

text \<open>
  \<^verbatim>\<open>
  exists: async (key) => {
    try {
      if (!cache.isAvailable()) { return false; }
      const result = await client.exists(key);
      return result === 1;
    } catch (error) { return false; }
  }
  \<close>
\<close>

definition cache_exists :: "redis \<Rightarrow> string \<Rightarrow> exn + bool" where
  "cache_exists r key =
     try_catch
       (if \<not> isAvailable r then Inr False
        else bind_exn (client_exists r key) (\<lambda>n. Inr (n = 1)))
       (\<lambda>e. Inr False)"

text \<open>
  \<^verbatim>\<open>
  flushAll: async () => {
    try {
      if (!cache.isAvailable()) { return false; }
      await client.flushAll();
      return true;
    } catch (error) { return false; }
  }
  \<close>
\<close>

definition cache_flushAll :: "redis \<Rightarrow> exn + bool \<times> redis" where
  "cache_flushAll r =
     try_catch
       (if \<not> isAvailable r then Inr (False, r)
        else bind_exn (client_flushAll r) (\<lambda>r'. Inr (True, r')))
       (\<lambda>e. Inr (False, r))"

section \<open>The route POST /generate-questions (backend/src/routes/llm.js, lines 39-177)\<close>

text \<open>
  The response: the HTTP status and the fields of the JSON body, \<open>None\<close> for a field that
  the body does not have. The time stamp \<^verbatim>\<open>generatedAt\<close> is a reading of the clock and
  is left out.
\<close>

record metadata =
  md_requestedDifficulty :: string
  md_adjustedDifficulty :: string
  md_previousScore :: "int option"
  md_language :: string
  md_questionType :: string
  md_contentLength :: nat
  md_questionCount :: nat

record response =
  res_status :: nat
  res_success :: "bool option"
  res_error :: "string option"
  res_message :: "string option"
  res_details :: "violation list option"
  res_questions :: "json option"
  res_cached :: "bool option"
  res_fallback :: "bool option"
  res_difficulty :: "string option"
  res_attemptNumber :: "int option"
  res_metadata :: "metadata option"

definition empty_response :: response where
  "empty_response =
     \<lparr> res_status = 200, res_success = None, res_error = None, res_message = None,
       res_details = None, res_questions = None, res_cached = None, res_fallback = None,
       res_difficulty = None, res_attemptNumber = None, res_metadata = None \<rparr>"

text \<open>
  \<^verbatim>\<open>
  return res.status(400).json({
    error: 'Validation error',
    details: error.details.map(d => d.message)
  });
  \<close>
  Each message names the key and the rule of its detail; the detail stands for it.
\<close>

definition validation_response :: "violation list \<Rightarrow> response" where
  "validation_response details =
     empty_response \<lparr> res_status := 400, res_error := Some ''Validation error'',
                      res_details := Some details \<rparr>"

text \<open>
  \<^verbatim>\<open>
  return res.json({
    success: true,
    data: { questions: JSON.parse(cached) },
    cached: true,
    difficulty: adjustedDifficulty,
    attemptNumber,
    generatedAt: new Date().toISOString()
  });
  \<close>
\<close>

definition cached_response :: "json \<Rightarrow> string \<Rightarrow> int \<Rightarrow> response" where
  "cached_response qs adjDifficulty attemptNumber =
     empty_response \<lparr> res_success := Some True, res_questions := Some qs, res_cached := Some True,
                      res_difficulty := Some adjDifficulty, res_attemptNumber := Some attemptNumber \<rparr>"

text \<open>
  \<^verbatim>\<open>
  res.json({
    success: true,
    data: { questions },
    cached: false,
    difficulty: adjustedDifficulty,
    attemptNumber,
    generatedAt: new Date().toISOString(),
    metadata: { requestedDifficulty: difficulty, adjustedDifficulty, previousScore, language,
                questionType, contentLength: content.length, questionCount: questions.length }
  });
  \<close>
\<close>

definition generated_response :: "json list \<Rightarrow> string \<Rightarrow> request \<Rightarrow> response" where
  "generated_response qs adjDifficulty v =
     empty_response \<lparr> res_success := Some True, res_questions := Some (JArr qs),
                      res_cached := Some False, res_difficulty := Some adjDifficulty,
                      res_attemptNumber := Some (v_attemptNumber v),
                      res_metadata := Some
                        \<lparr> md_requestedDifficulty = v_difficulty v,
                          md_adjustedDifficulty = adjDifficulty,
                          md_previousScore = v_previousScore v,
                          md_language = v_language v,
                          md_questionType = v_questionType v,
                          md_contentLength = length (v_content v),
                          md_questionCount = length qs \<rparr> \<rparr>"

text \<open>
  The \<^verbatim>\<open>catch\<close> block of the route:
  \<^verbatim>\<open>
  const fallbackQuestions = getFallbackQuestions(req.body.questionCount || 3);
  res.status(200).json({
    success: false,
    error: 'Question generation failed',
    message: 'Menggunakan soal contoh untuk development/demo',
    data: { questions: fallbackQuestions },
    fallback: true,
    generatedAt: new Date().toISOString()
  });
  \<close>
\<close>

definition fallback_response :: "body \<Rightarrow> response" where
  "fallback_response b =
     empty_response \<lparr> res_status := 200, res_success := Some False,
                      res_error := Some ''Question generation failed'',
                      res_message := Some ''Menggunakan soal contoh untuk development/demo'',
                      res_questions := Some (JArr (getFallbackQuestions
                         (case b_questionCount b of Some n \<Rightarrow> (if n \<noteq> 0 then n else 3) | None \<Rightarrow> 3))),
                      res_fallback := Some True \<rparr>"

text \<open>
  What the call of the language model does: it throws (the network, the service), or it
  returns a text, represented by the outcome of \<^verbatim>\<open>JSON.parse\<close> on the cleaned text.
\<close>

datatype generator = GenThrows exn | GenReturns "exn + json"

text \<open>
  The generator fails on a request for \<open>n\<close> questions when its call throws or when the
  handler rejects what \<open>parseGeminiResponse\<close> makes of its text:
  \<^verbatim>\<open>
  if (!questions || questions.length === 0) {
    throw new Error('Failed to generate valid questions');
  }
  \<close>
\<close>

definition generator_fails :: "generator \<Rightarrow> int \<Rightarrow> bool" where
  "generator_fails gen n =
     (case gen of
        GenThrows e \<Rightarrow> True
      | GenReturns parsed \<Rightarrow>
          (case parseGeminiResponse parsed n of
             Inr (Some qs) \<Rightarrow> length qs = 0
           | _ \<Rightarrow> True))"

text \<open>
  The two values that the handler computes from the validated request: the adjusted
  difficulty and the cache key.
\<close>

definition adjusted_of :: "request \<Rightarrow> string" where
  "adjusted_of v = adjustedDifficulty (v_difficulty v) (v_previousScore v) (v_attemptNumber v)"

definition cacheKey_of :: "request \<Rightarrow> string" where
  "cacheKey_of v =
     cacheKey (v_content v) (adjusted_of v) (v_questionCount v) (v_attemptNumber v) (v_userId v)"

text \<open>
  The handler. It takes the library, the state of the cache, the request body and the
  behaviour of the generator, and returns the response and the state of the cache.
  The validation error is returned from inside the \<^verbatim>\<open>try\<close>; everything thrown
  after it reaches the \<^verbatim>\<open>catch\<close> block.
  \<^verbatim>\<open>
  try {
    const { error, value } = generateQuestionsSchema.validate(req.body);
    if (error) { return res.status(400).json(...); }
    ...
    const cached = await cache.get(cacheKey);
    if (cached) { return res.json({ ..., data: { questions: JSON.parse(cached) }, ... }); }
    ...
    const result = await model.generateContent(prompt);
    const response = await result.response;
    const text = response.text();
    const questions = parseGeminiResponse(text, questionCount);
    if (!questions || questions.length === 0) {
      throw new Error('Failed to generate valid questions');
    }
    await cache.set(cacheKey, JSON.stringify(questions), 3600);
    res.json({ ... });
  } catch (error) {
    ...
  }
  \<close>
\<close>

definition generate_questions :: "lib \<Rightarrow> redis \<Rightarrow> body \<Rightarrow> generator \<Rightarrow> exn + response \<times> redis" where
  "generate_questions js r b gen =
     try_catch
       (case generateQuestionsSchema_validate b of
          Inl details \<Rightarrow> Inr (validation_response details, r)
        | Inr v \<Rightarrow>
            bind_exn (cache_get js r (cacheKey_of v)) (\<lambda>cached.
              if truthy cached then
                bind_exn (JSON_parse js cached) (\<lambda>qs.
                  Inr (cached_response qs (adjusted_of v) (v_attemptNumber v), r))
              else
                bind_exn (case gen of GenThrows e \<Rightarrow> Inl e | GenReturns parsed \<Rightarrow> Inr parsed) (\<lambda>parsed.
                bind_exn (parseGeminiResponse parsed (v_questionCount v)) (\<lambda>questions.
                  case questions of
                    None \<Rightarrow> Inl (Error ''Failed to generate valid questions'')
                  | Some qs \<Rightarrow>
                      if length qs = 0 then Inl (Error ''Failed to generate valid questions'')
                      else
                        bind_exn (cache_set js r (cacheKey_of v)
                                    (JStr (JSON_stringify js (JArr qs))) 3600) (\<lambda>(ok, r').
                          Inr (generated_response qs (adjusted_of v) v, r'))))))
       (\<lambda>e. Inr (fallback_response b, r))"

section \<open>The client (frontend)\<close>

text \<open>
  \<open>GenerateQuestionsRequest\<close> of the API service. The previous score is the percentage
  that the component computes, a number that need not be an integer.
\<close>

record GenerateQuestionsRequest =
  r_content :: string
  r_difficulty :: "string option"
  r_questionCount :: "int option"
  r_language :: "string option"
  r_tutorialTitle :: "string option"
  r_attemptNumber :: "int option"
  r_previousScore :: "rat option"
  r_userId :: "string option"

text \<open>
  The body that \<open>apiService.generateQuestions\<close> posts:
  \<^verbatim>\<open>
  body: JSON.stringify({
    content: request.content,
    difficulty: request.difficulty || 'medium',
    questionCount: request.questionCount || 3,
    language: request.language || 'id'
  })
  \<close>
\<close>

definition generateQuestions_body :: "GenerateQuestionsRequest \<Rightarrow> body" where
  "generateQuestions_body request =
     \<lparr> b_content = Some (r_content request),
       b_questionCount = Some (case r_questionCount request of
                                 Some n \<Rightarrow> (if n \<noteq> 0 then n else 3) | None \<Rightarrow> 3),
       b_difficulty = Some (case r_difficulty request of
                              Some d \<Rightarrow> (if d \<noteq> [] then d else ''medium'') | None \<Rightarrow> ''medium''),
       b_language = Some (case r_language request of
                            Some l \<Rightarrow> (if l \<noteq> [] then l else ''id'') | None \<Rightarrow> ''id''),
       b_questionType = None,
       b_attemptNumber = None,
       b_previousScore = None,
       b_userId = None,
       b_unknown = [] \<rparr>"

text \<open>
  The difficulty of the next attempt in \<open>handleTryAgain\<close>
  (frontend/src/components/Timer.tsx, lines 401-408):
  \<^verbatim>\<open>
  let nextDifficulty = currentDifficulty;
  if (scorePercentage >= 80 && currentDifficulty !== 'hard') {
    nextDifficulty = currentDifficulty === 'easy' ? 'medium' : 'hard';
  } else if (scorePercentage <= 40 && currentDifficulty !== 'easy') {
    nextDifficulty = currentDifficulty === 'hard' ? 'medium' : 'easy';
  }
  \<close>
\<close>

definition nextDifficulty :: "string \<Rightarrow> rat \<Rightarrow> string" where
  "nextDifficulty currentDifficulty scorePercentage =
     (if scorePercentage \<ge> 80 \<and> currentDifficulty \<noteq> ''hard'' then
        (if currentDifficulty = ''easy'' then ''medium'' else ''hard'')
      else if scorePercentage \<le> 40 \<and> currentDifficulty \<noteq> ''easy'' then
        (if currentDifficulty = ''hard'' then ''medium'' else ''easy'')
      else currentDifficulty)"

text \<open>
  The percentage that the component computes, \<^verbatim>\<open>(score / questions.length) * 100\<close>, need
  not be an integer. Lines 61-73 of the route compare a JavaScript number, which only the
  schema makes an integer; here they are read at any number, to be compared with the
  component's rule at every percentage.
\<close>

definition adjustedDifficulty_at :: "string \<Rightarrow> rat option \<Rightarrow> int \<Rightarrow> string" where
  "adjustedDifficulty_at difficulty previousScore attemptNumber =
     (case previousScore of
        None \<Rightarrow> difficulty
      | Some scorePercentage \<Rightarrow>
          if attemptNumber > 0 then
            (if scorePercentage \<ge> 80 \<and> difficulty \<noteq> ''hard'' then
               (if difficulty = ''easy'' then ''medium'' else ''hard'')
             else if scorePercentage \<le> 40 \<and> difficulty \<noteq> ''easy'' then
               (if difficulty = ''hard'' then ''medium'' else ''easy'')
             else difficulty)
          else difficulty)"

text \<open>
  The request that \<open>handleTryAgain\<close> hands to the API service (lines 433-442):
  \<^verbatim>\<open>
  const nextAttempt = attemptNumber + 1;
  ...
  const response = await apiService.generateQuestions({
    content: tutorial.content,
    difficulty: nextDifficulty,
    questionCount: 3,
    language: 'id',
    tutorialTitle: tutorial.title,
    attemptNumber: nextAttempt,
    previousScore: scorePercentage,
    userId
  });
  \<close>
\<close>

definition handleTryAgain_request ::
  "string \<Rightarrow> string \<Rightarrow> string \<Rightarrow> rat \<Rightarrow> int \<Rightarrow> string \<Rightarrow> GenerateQuestionsRequest" where
  "handleTryAgain_request tutorial_content tutorial_title currentDifficulty scorePercentage
       attemptNumber userId =
     \<lparr> r_content = tutorial_content,
       r_difficulty = Some (nextDifficulty currentDifficulty scorePercentage),
       r_questionCount = Some 3,
       r_language = Some ''id'',
       r_tutorialTitle = Some tutorial_title,
       r_attemptNumber = Some (attemptNumber + 1),
       r_previousScore = Some scorePercentage,
       r_userId = Some userId \<rparr>"

section \<open>Inputs of the examples\<close>

text \<open>
  The state of the cache module after \<^verbatim>\<open>redis.createClient\<close> has thrown:
  \<^verbatim>\<open>client = null; isConnected = false;\<close>
\<close>

definition redis_absent :: redis where
  "redis_absent = \<lparr> client_present = False, isConnected = False, failure = None, store = Map.empty \<rparr>"

text \<open>A connected client whose server rejects every call.\<close>

definition redis_failing :: redis where
  "redis_failing =
     \<lparr> client_present = True, isConnected = True, failure = Some (Error ''ECONNRESET''),
       store = Map.empty \<rparr>"

text \<open>A connected client of a server that holds nothing.\<close>

definition redis_empty :: redis where
  "redis_empty = \<lparr> client_present = True, isConnected = True, failure = None, store = Map.empty \<rparr>"

text \<open>
  An instance of the library parameters for the examples, none of which depends on what
  \<^verbatim>\<open>JSON.parse\<close> or \<^verbatim>\<open>JSON.stringify\<close> returns.
\<close>

definition lib_unused :: lib where
  "lib_unused = \<lparr> JSON_parse = (\<lambda>v. Inl SyntaxError), JSON_stringify = (\<lambda>v. []) \<rparr>"

text \<open>A request body with the content and the question count only.\<close>

definition simple_body :: "string \<Rightarrow> int \<Rightarrow> body" where
  "simple_body c n =
     \<lparr> b_content = Some c, b_questionCount = Some n, b_difficulty = None, b_language = None,
       b_questionType = None, b_attemptNumber = None, b_previousScore = None, b_userId = None,
       b_unknown = [] \<rparr>"

section \<open>Properties\<close>

text \<open>
  C2. For a difficulty among easy, medium and hard, a previous score between 0 and 100 or
  absent, and an attempt number that is not negative, the adaptation returns the input
  when the attempt number is 0 or the score is absent; one level up when the score is at
  least 80 and the input is not hard; one level down when the score is at most 40 and the
  input is not easy; the input in every other case. The result is a difficulty at most
  one level away from the input.
\<close>

theorem adjustedDifficulty_table:
  assumes "d \<in> difficulties" and "0 \<le> a"
    and "case ps of None \<Rightarrow> True | Some s \<Rightarrow> 0 \<le> s \<and> s \<le> 100"
  shows "(a = 0 \<or> ps = None \<longrightarrow> adjustedDifficulty d ps a = d)
       \<and> (\<forall>s. a \<noteq> 0 \<and> ps = Some s \<and> s \<ge> 80 \<and> d \<noteq> ''hard'' \<longrightarrow>
             adjustedDifficulty d ps a = (if d = ''easy'' then ''medium'' else ''hard'')
             \<and> level (adjustedDifficulty d ps a) = level d + 1)
       \<and> (\<forall>s. a \<noteq> 0 \<and> ps = Some s \<and> s \<le> 40 \<and> d \<noteq> ''easy'' \<longrightarrow>
             adjustedDifficulty d ps a = (if d = ''hard'' then ''medium'' else ''easy'')
             \<and> level (adjustedDifficulty d ps a) = level d - 1)
       \<and> (\<forall>s. a \<noteq> 0 \<and> ps = Some s \<and> \<not> (s \<ge> 80 \<and> d \<noteq> ''hard'') \<and> \<not> (s \<le> 40 \<and> d \<noteq> ''easy'') \<longrightarrow>
             adjustedDifficulty d ps a = d)
       \<and> adjustedDifficulty d ps a \<in> difficulties
       \<and> \<bar>level (adjustedDifficulty d ps a) - level d\<bar> \<le> 1"
  using assms
  by (auto simp: adjustedDifficulty_def difficulties_def level_def split: option.splits)

theorem adjustedDifficulty_table_witness:
  "adjustedDifficulty ''medium'' (Some 85) 1 = ''hard''
   \<and> adjustedDifficulty ''medium'' (Some 35) 1 = ''easy''
   \<and> adjustedDifficulty ''medium'' (Some 60) 1 = ''medium''
   \<and> adjustedDifficulty ''hard'' (Some 95) 1 = ''hard''
   \<and> adjustedDifficulty ''easy'' (Some 10) 1 = ''easy''
   \<and> adjustedDifficulty ''medium'' (Some 85) 0 = ''medium''
   \<and> level (adjustedDifficulty ''medium'' (Some 85) 1) = level ''medium'' + 1
   \<and> \<bar>level (adjustedDifficulty ''medium'' (Some 85) 1) - level ''medium''\<bar> \<le> 1"
  using adjustedDifficulty_table [of "''medium''" 1 "Some 85"]
  by (simp add: adjustedDifficulty_def difficulties_def level_def)

subsection \<open>Decimal rendering and the content fingerprint\<close>

lemma digits_nonempty: "digits n \<noteq> []"
  by (subst digits.simps) simp

lemma digit_char_inj: "a < 10 \<Longrightarrow> b < 10 \<Longrightarrow> digit_char a = digit_char b \<Longrightarrow> a = b"
  by (simp add: digit_char_def char_of_eq_iff take_bit_nat_eq_self)

lemma digit_char_not_minus: "a < 10 \<Longrightarrow> digit_char a \<noteq> CHR ''-''"
proof
  assume a: "a < 10" and e: "digit_char a = CHR ''-''"
  have "of_char (digit_char a) = (48 + a :: nat)"
    using a by (simp add: digit_char_def take_bit_nat_eq_self)
  with e show False by simp
qed

lemma digits_inj: "digits m = digits n \<Longrightarrow> m = n"
proof (induction m arbitrary: n rule: digits.induct)
  case (1 m)
  show ?case
  proof (cases "m < 10")
    case True
    show ?thesis
    proof (cases "n < 10")
      case n: True
      from "1.prems" True n have "digit_char m = digit_char n"
        by (simp add: digits.simps [of m] digits.simps [of n])
      with True n show ?thesis by (intro digit_char_inj)
    next
      case n: False
      from "1.prems" True n have "[digit_char m] = digits (n div 10) @ [digit_char (n mod 10)]"
        by (simp add: digits.simps [of m] digits.simps [of n])
      then have "digits (n div 10) = []" by simp
      with digits_nonempty show ?thesis by blast
    qed
  next
    case False
    show ?thesis
    proof (cases "n < 10")
      case n: True
      from "1.prems" False n have "digits (m div 10) @ [digit_char (m mod 10)] = [digit_char n]"
        by (simp add: digits.simps [of m] digits.simps [of n])
      then have "digits (m div 10) = []" by simp
      with digits_nonempty show ?thesis by blast
    next
      case n: False
      from "1.prems" False n
      have "digits (m div 10) @ [digit_char (m mod 10)] = digits (n div 10) @ [digit_char (n mod 10)]"
        by (simp add: digits.simps [of m] digits.simps [of n])
      then have d: "digits (m div 10) = digits (n div 10)"
        and c: "digit_char (m mod 10) = digit_char (n mod 10)" by simp_all
      from "1.IH" [OF False d] have q: "m div 10 = n div 10" .
      from c have r: "m mod 10 = n mod 10" by (intro digit_char_inj) simp_all
      from q r show ?thesis by (metis div_mult_mod_eq)
    qed
  qed
qed

lemma hd_digits_not_minus: "hd (digits n) \<noteq> CHR ''-''"
proof (induction n rule: digits.induct)
  case (1 n)
  show ?case
  proof (cases "n < 10")
    case True
    then show ?thesis by (simp add: digits.simps [of n] digit_char_not_minus)
  next
    case False
    with "1.IH" digits_nonempty [of "n div 10"] show ?thesis
      by (simp add: digits.simps [of n])
  qed
qed

lemma num_str_inj: "num_str i = num_str j \<Longrightarrow> i = j"
proof -
  assume e: "num_str i = num_str j"
  have neg: "False" if "num_str a = num_str b" "a < 0" "\<not> b < 0" for a b
  proof -
    from that have "CHR ''-'' # digits (nat (- a)) = digits (nat b)" by (simp add: num_str_def)
    then have "hd (digits (nat b)) = CHR ''-''" by (metis list.sel(1))
    with hd_digits_not_minus show False by blast
  qed
  show ?thesis
  proof (cases "i < 0")
    case True
    show ?thesis
    proof (cases "j < 0")
      case j: True
      from e True j have "digits (nat (- i)) = digits (nat (- j))" by (simp add: num_str_def)
      then have "nat (- i) = nat (- j)" by (rule digits_inj)
      with True j show ?thesis by simp
    next
      case j: False
      from neg [OF e True j] show ?thesis ..
    qed
  next
    case False
    show ?thesis
    proof (cases "j < 0")
      case j: True
      from neg [OF e [symmetric] j False] show ?thesis ..
    next
      case j: False
      from e False j have "digits (nat i) = digits (nat j)" by (simp add: num_str_def)
      then have "nat i = nat j" by (rule digits_inj)
      with False j show ?thesis by simp
    qed
  qed
qed

lemma base64_take: "3 * k \<le> length xs \<Longrightarrow> take (4 * k) (base64 xs) = base64 (take (3 * k) xs)"
proof (induction k arbitrary: xs)
  case 0
  then show ?case by simp
next
  case (Suc k)
  then obtain a b c rest where xs: "xs = a # b # c # rest"
    by (cases xs; cases "tl xs"; cases "tl (tl xs)") auto
  with Suc.prems have "3 * k \<le> length rest" by simp
  from Suc.IH [OF this] have ih: "take (4 * k) (base64 rest) = base64 (take (3 * k) rest)" .
  have four: "4 * Suc k = Suc (Suc (Suc (Suc (4 * k))))" by simp
  have three: "3 * Suc k = Suc (Suc (Suc (3 * k)))" by simp
  show ?case unfolding xs four three by (simp add: Let_def ih)
qed

lemma contentHash_prefix:
  assumes "24 \<le> length c1" and "take 24 c1 = take 24 c2" and "24 \<le> length c2"
  shows "contentHash c1 = contentHash c2"
proof -
  have "take (4 * 8) (base64 c1) = base64 (take (3 * 8) c1)"
    using assms(1) by (intro base64_take) simp
  moreover have "take (4 * 8) (base64 c2) = base64 (take (3 * 8) c2)"
    using assms(3) by (intro base64_take) simp
  ultimately show ?thesis using assms(2) by (simp add: contentHash_def)
qed

text \<open>
  C3. The key is a function of its five inputs, but it does not tell two contents apart
  that agree on their first 24 bytes: the fingerprint is the first 32 characters of the
  base64 text, which encode those bytes only. Two distinct contents, each a valid
  request, get the same key.
\<close>

theorem cacheKey_collision:
  "''<h2>Pengenalan AI</h2><p>'' @ replicate 80 CHR ''a'' \<noteq> ''<h2>Pengenalan AI</h2><p>'' @ replicate 80 CHR ''b''
   \<and> violations (simple_body (''<h2>Pengenalan AI</h2><p>'' @ replicate 80 CHR ''a'') 3) = []
   \<and> violations (simple_body (''<h2>Pengenalan AI</h2><p>'' @ replicate 80 CHR ''b'') 3) = []
   \<and> cacheKey (''<h2>Pengenalan AI</h2><p>'' @ replicate 80 CHR ''a'') ''medium'' 3 0 None
     = cacheKey (''<h2>Pengenalan AI</h2><p>'' @ replicate 80 CHR ''b'') ''medium'' 3 0 None"
proof -
  have "contentHash (''<h2>Pengenalan AI</h2><p>'' @ replicate 80 CHR ''a'')
      = contentHash (''<h2>Pengenalan AI</h2><p>'' @ replicate 80 CHR ''b'')"
    by (rule contentHash_prefix) simp_all
  then show ?thesis
    by (simp add: cacheKey_def violations_def simple_body_def joi_string_def joi_integer_def
        joi_valid_def MAX_SAFE_INTEGER_def)
qed

text \<open>
  C8 (as the code has it). On a retry, that is with an attempt number above 0 and a
  previous score, the backend's adjustment and the frontend's next difficulty are the same
  function of the current difficulty and the score percentage, at every percentage,
  integer or not: one level up at 80 or more when not hard, one level down at 40 or less
  when not easy, the current difficulty otherwise. With an attempt number of 0 or without
  a previous score the backend keeps the difficulty, whatever the score.
\<close>

theorem difficulty_rules_agree:
  "(0 < a \<longrightarrow> adjustedDifficulty_at d (Some p) a = nextDifficulty d p)
   \<and> (0 < a \<longrightarrow> adjustedDifficulty d (Some s) a = nextDifficulty d (of_int s))
   \<and> adjustedDifficulty d ps a = adjustedDifficulty_at d (map_option of_int ps) a
   \<and> (a \<le> 0 \<longrightarrow> adjustedDifficulty_at d (Some p) a = d)
   \<and> adjustedDifficulty_at d None a = d
   \<and> (d \<in> difficulties \<longrightarrow>
        (p \<ge> 80 \<and> d \<noteq> ''hard'' \<longrightarrow>
           nextDifficulty d p = (if d = ''easy'' then ''medium'' else ''hard'')
           \<and> level (nextDifficulty d p) = level d + 1)
      \<and> (p \<le> 40 \<and> d \<noteq> ''easy'' \<longrightarrow>
           nextDifficulty d p = (if d = ''hard'' then ''medium'' else ''easy'')
           \<and> level (nextDifficulty d p) = level d - 1)
      \<and> (\<not> (p \<ge> 80 \<and> d \<noteq> ''hard'') \<and> \<not> (p \<le> 40 \<and> d \<noteq> ''easy'') \<longrightarrow> nextDifficulty d p = d)
      \<and> nextDifficulty d p \<in> difficulties)"
proof (intro conjI)
  show "0 < a \<longrightarrow> adjustedDifficulty_at d (Some p) a = nextDifficulty d p"
    by (simp add: adjustedDifficulty_at_def nextDifficulty_def)
  show "0 < a \<longrightarrow> adjustedDifficulty d (Some s) a = nextDifficulty d (of_int s)"
    by (simp add: adjustedDifficulty_def nextDifficulty_def)
  show "adjustedDifficulty d ps a = adjustedDifficulty_at d (map_option of_int ps) a"
    by (cases ps) (simp_all add: adjustedDifficulty_def adjustedDifficulty_at_def)
  show "a \<le> 0 \<longrightarrow> adjustedDifficulty_at d (Some p) a = d"
    by (simp add: adjustedDifficulty_at_def)
  show "adjustedDifficulty_at d None a = d"
    by (simp add: adjustedDifficulty_at_def)
  show "d \<in> difficulties \<longrightarrow>
        (p \<ge> 80 \<and> d \<noteq> ''hard'' \<longrightarrow>
           nextDifficulty d p = (if d = ''easy'' then ''medium'' else ''hard'')
           \<and> level (nextDifficulty d p) = level d + 1)
      \<and> (p \<le> 40 \<and> d \<noteq> ''easy'' \<longrightarrow>
           nextDifficulty d p = (if d = ''hard'' then ''medium'' else ''easy'')
           \<and> level (nextDifficulty d p) = level d - 1)
      \<and> (\<not> (p \<ge> 80 \<and> d \<noteq> ''hard'') \<and> \<not> (p \<le> 40 \<and> d \<noteq> ''easy'') \<longrightarrow> nextDifficulty d p = d)
      \<and> nextDifficulty d p \<in> difficulties"
    by (auto simp: nextDifficulty_def difficulties_def level_def)
qed

theorem difficulty_rules_agree_witness:
  "(0::int) < 1
   \<and> adjustedDifficulty_at ''medium'' (Some (100 / 3)) 1 = ''easy''
   \<and> nextDifficulty ''medium'' (100 / 3) = ''easy''
   \<and> adjustedDifficulty ''medium'' (Some 85) 1 = ''hard''
   \<and> nextDifficulty ''medium'' 85 = ''hard''
   \<and> ''medium'' \<in> difficulties
   \<and> level (nextDifficulty ''medium'' (100 / 3)) = level ''medium'' - 1"
  using difficulty_rules_agree [of 1 "''medium''" "100 / 3" 85 "Some 85"]
  by (simp add: nextDifficulty_def difficulties_def level_def)

text \<open>
  C8 as stated fails: at the difficulty medium and the score 85 the frontend's rule gives
  hard, and the backend's adjustment at attempt number 0 gives medium.
\<close>

theorem difficulty_rules_attempt_zero:
  "adjustedDifficulty ''medium'' (Some 85) 0 = ''medium''
   \<and> nextDifficulty ''medium'' (of_int 85) = ''hard''
   \<and> adjustedDifficulty ''medium'' (Some 85) 0 \<noteq> nextDifficulty ''medium'' (of_int 85)"
  by (simp add: adjustedDifficulty_def nextDifficulty_def)

subsection \<open>The cache\<close>

lemma cacheKey_attempt_inj:
  "cacheKey c d n a1 u = cacheKey c d n a2 u \<Longrightarrow> a1 = a2"
  by (simp add: cacheKey_def num_str_inj)

text \<open>
  C7. Two requests that differ in the attempt number only are given different cache keys;
  so what \<open>cache.set\<close> stores under the key of one attempt is not what \<open>cache.get\<close>
  finds under the key of the other.
\<close>

theorem cacheKey_attemptNumber:
  assumes "a1 \<noteq> a2"
  shows "cacheKey c d n a1 u \<noteq> cacheKey c d n a2 u
       \<and> (store r (cacheKey c d n a2 u) = None
            \<and> cache_set js r (cacheKey c d n a1 u) v ttl = Inr (ok, r')
          \<longrightarrow> cache_get js r' (cacheKey c d n a2 u) = Inr JNull)"
proof (intro conjI impI)
  show ne: "cacheKey c d n a1 u \<noteq> cacheKey c d n a2 u"
    using assms cacheKey_attempt_inj by blast
  assume "store r (cacheKey c d n a2 u) = None
            \<and> cache_set js r (cacheKey c d n a1 u) v ttl = Inr (ok, r')"
  then have none: "store r (cacheKey c d n a2 u) = None"
    and set: "cache_set js r (cacheKey c d n a1 u) v ttl = Inr (ok, r')" by simp_all
  from set have "r' = r \<or> r' = r\<lparr>store := (store r)(cacheKey c d n a1 u \<mapsto> JSON_stringify js v)\<rparr>"
    by (auto simp: cache_set_def try_catch_def bind_exn_def client_setEx_def
        split: if_splits option.splits sum.splits)
  with none ne have "store r' (cacheKey c d n a2 u) = None" by auto
  then show "cache_get js r' (cacheKey c d n a2 u) = Inr JNull"
    by (simp add: cache_get_def try_catch_def bind_exn_def client_get_def split: option.splits)
qed

theorem cacheKey_attemptNumber_witness:
  "(0::int) \<noteq> 1
   \<and> cacheKey (replicate 120 CHR ''a'') ''medium'' 3 0 None
       \<noteq> cacheKey (replicate 120 CHR ''a'') ''medium'' 3 1 None
   \<and> cache_set lib_unused redis_empty (cacheKey (replicate 120 CHR ''a'') ''medium'' 3 0 None) (JStr ''[]'') 3600
       = Inr (True, redis_empty\<lparr>store := Map.empty(cacheKey (replicate 120 CHR ''a'') ''medium'' 3 0 None \<mapsto> JSON_stringify lib_unused (JStr ''[]''))\<rparr>)
   \<and> cache_get lib_unused
        (redis_empty\<lparr>store := Map.empty(cacheKey (replicate 120 CHR ''a'') ''medium'' 3 0 None \<mapsto> JSON_stringify lib_unused (JStr ''[]''))\<rparr>)
        (cacheKey (replicate 120 CHR ''a'') ''medium'' 3 1 None) = Inr JNull"
proof -
  have ne: "(0::int) \<noteq> 1" by simp
  have set: "cache_set lib_unused redis_empty (cacheKey (replicate 120 CHR ''a'') ''medium'' 3 0 None) (JStr ''[]'') 3600
       = Inr (True, redis_empty\<lparr>store := Map.empty(cacheKey (replicate 120 CHR ''a'') ''medium'' 3 0 None \<mapsto> JSON_stringify lib_unused (JStr ''[]''))\<rparr>)"
    by (simp add: cache_set_def try_catch_def bind_exn_def client_setEx_def isAvailable_def
        redis_empty_def)
  have none: "store redis_empty (cacheKey (replicate 120 CHR ''a'') ''medium'' 3 1 None) = None"
    by (simp add: redis_empty_def)
  from cacheKey_attemptNumber [OF ne, of "replicate 120 CHR ''a''" "''medium''" 3 None redis_empty
      lib_unused "JStr ''[]''" 3600 True
      "redis_empty\<lparr>store := Map.empty(cacheKey (replicate 120 CHR ''a'') ''medium'' 3 0 None \<mapsto> JSON_stringify lib_unused (JStr ''[]''))\<rparr>"]
    ne set none
  show ?thesis by blast
qed

text \<open>
  C10. No operation of the cache service propagates an exception: each returns a value.
  \<open>get\<close> returns \<open>null\<close> or the parsed value of the stored text; when the client is
  not available or the call of the client throws, \<open>get\<close> returns \<open>null\<close> and \<open>set\<close>,
  \<open>del\<close>, \<open>exists\<close> and \<open>flushAll\<close> return \<open>false\<close>, leaving the state as it was.
\<close>

theorem cache_total:
  "(\<exists>v. cache_get js r key = Inr v \<and>
        (v = JNull \<or> (\<exists>s. store r key = Some s \<and> JSON_parse js (JStr s) = Inr v)))
   \<and> (\<exists>ok r'. cache_set js r key v ttl = Inr (ok, r'))
   \<and> (\<exists>ok r'. cache_del r key = Inr (ok, r'))
   \<and> (\<exists>ok. cache_exists r key = Inr ok)
   \<and> (\<exists>ok r'. cache_flushAll r = Inr (ok, r'))
   \<and> (\<not> isAvailable r \<or> failure r \<noteq> None \<longrightarrow>
        cache_get js r key = Inr JNull
        \<and> cache_set js r key v ttl = Inr (False, r)
        \<and> cache_del r key = Inr (False, r)
        \<and> cache_exists r key = Inr False
        \<and> cache_flushAll r = Inr (False, r))"
proof (intro conjI)
  show "\<exists>v. cache_get js r key = Inr v \<and>
        (v = JNull \<or> (\<exists>s. store r key = Some s \<and> JSON_parse js (JStr s) = Inr v))"
    by (auto simp: cache_get_def try_catch_def bind_exn_def client_get_def
        split: option.splits sum.splits)
  show "\<exists>ok r'. cache_set js r key v ttl = Inr (ok, r')"
    by (auto simp: cache_set_def try_catch_def bind_exn_def client_setEx_def
        split: option.splits sum.splits)
  show "\<exists>ok r'. cache_del r key = Inr (ok, r')"
    by (auto simp: cache_del_def try_catch_def bind_exn_def client_del_def
        split: option.splits sum.splits)
  show "\<exists>ok. cache_exists r key = Inr ok"
    by (auto simp: cache_exists_def try_catch_def bind_exn_def client_exists_def
        split: option.splits sum.splits)
  show "\<exists>ok r'. cache_flushAll r = Inr (ok, r')"
    by (auto simp: cache_flushAll_def try_catch_def bind_exn_def client_flushAll_def
        split: option.splits sum.splits)
  show "\<not> isAvailable r \<or> failure r \<noteq> None \<longrightarrow>
        cache_get js r key = Inr JNull
        \<and> cache_set js r key v ttl = Inr (False, r)
        \<and> cache_del r key = Inr (False, r)
        \<and> cache_exists r key = Inr False
        \<and> cache_flushAll r = Inr (False, r)"
    by (auto simp: cache_get_def cache_set_def cache_del_def cache_exists_def cache_flushAll_def
        try_catch_def bind_exn_def client_get_def client_setEx_def client_del_def
        client_exists_def client_flushAll_def split: option.splits sum.splits)
qed

theorem cache_total_witness:
  "isAvailable redis_failing
   \<and> failure redis_failing = Some (Error ''ECONNRESET'')
   \<and> \<not> isAvailable redis_absent
   \<and> cache_get lib_unused redis_failing ''k'' = Inr JNull
   \<and> cache_set lib_unused redis_failing ''k'' (JStr ''v'') 3600 = Inr (False, redis_failing)
   \<and> cache_del redis_failing ''k'' = Inr (False, redis_failing)
   \<and> cache_get lib_unused redis_absent ''k'' = Inr JNull
   \<and> cache_set lib_unused redis_absent ''k'' (JStr ''v'') 3600 = Inr (False, redis_absent)"
  using cache_total [of lib_unused redis_failing "''k''" "JStr ''v''" 3600]
    cache_total [of lib_unused redis_absent "''k''" "JStr ''v''" 3600]
  by (simp add: redis_failing_def redis_absent_def isAvailable_def)


subsection \<open>Normalization\<close>




lemma sequence_exn_isl: "isl (sequence_exn xs) \<longleftrightarrow> (\<exists>x\<in>set xs. isl x)"
proof (induction xs)
  case Nil
  show ?case by simp
next
  case (Cons x xs)
  show ?case
  proof (cases x)
    case (Inl e)
    then show ?thesis by (simp add: bind_exn_def)
  next
    case (Inr v)
    with Cons.IH show ?thesis
      by (cases "sequence_exn xs") (simp_all add: bind_exn_def)
  qed
qed




















subsection \<open>The handler\<close>

lemma valid_questionCount:
  assumes "generateQuestionsSchema_validate b = Inr v"
  shows "1 \<le> v_questionCount v \<and> v_questionCount v \<le> 10
       \<and> (case b_questionCount b of Some n \<Rightarrow> (if n \<noteq> 0 then n else 3) | None \<Rightarrow> 3) = v_questionCount v"
proof -
  from assms have nil: "violations b = []" and v: "v = with_defaults b"
    by (auto simp: generateQuestionsSchema_validate_def joi_validate_def split: list.splits)
  from nil have "joi_integer ''questionCount'' (Some 1) (Some 10) (b_questionCount b) = []"
    by (simp add: violations_def)
  then show ?thesis
    by (auto simp: v with_defaults_def joi_integer_def split: option.splits if_splits)
qed

lemma parse_failures:
  "parseGeminiResponse (Inl e) n = Inr None"
  "parseGeminiResponse (Inr (JArr [])) n = Inr None"
  by (simp_all add: parseGeminiResponse_def try_catch_def bind_exn_def)

lemma generator_fails_cases:
  "generator_fails (GenThrows e) n"
  "generator_fails (GenReturns (Inl e)) n"
  "generator_fails (GenReturns (Inr (JArr []))) n"
  by (simp_all add: generator_fails_def parse_failures)

lemma generate_questions_fallback:
  assumes valid: "generateQuestionsSchema_validate b = Inr v"
    and miss: "cache_get js r (cacheKey_of v) = Inr cached" "\<not> truthy cached"
    and fails: "generator_fails gen (v_questionCount v)"
  shows "generate_questions js r b gen = Inr (fallback_response b, r)"
  using fails
  by (auto simp: generate_questions_def valid miss generator_fails_def try_catch_def bind_exn_def
      split: generator.splits sum.splits option.splits)

lemma length_getFallbackQuestions:
  "0 \<le> n \<Longrightarrow> int (length (getFallbackQuestions n)) = min n 3"
  by (auto simp: getFallbackQuestions_def slice0_def fallback_questions_def)

lemma simple_body_valid:
  "100 \<le> length c \<Longrightarrow> length c \<le> 50000 \<Longrightarrow> 1 \<le> n \<Longrightarrow> n \<le> 10 \<Longrightarrow>
   generateQuestionsSchema_validate (simple_body c n) = Inr (with_defaults (simple_body c n))"
  by (auto simp: generateQuestionsSchema_validate_def joi_validate_def violations_def simple_body_def
      joi_string_def joi_integer_def joi_valid_def MAX_SAFE_INTEGER_def)

lemma cache_get_absent: "cache_get js redis_absent k = Inr JNull"
  by (simp add: cache_get_def redis_absent_def isAvailable_def try_catch_def)

lemma validate_violations:
  "violations b \<noteq> [] \<Longrightarrow> generateQuestionsSchema_validate b = Inl [hd (violations b)]"
  by (cases "violations b") (simp_all add: generateQuestionsSchema_validate_def joi_validate_def)

lemma generate_questions_invalid:
  "violations b \<noteq> [] \<Longrightarrow>
   generate_questions js r b gen = Inr (validation_response [hd (violations b)], r)"
  by (simp add: generate_questions_def validate_violations try_catch_def)









text \<open>
  C4 (as the code has it). For a valid request with question count n (1 to 10) on which
  the generator fails, the fallback response holds min n 3 questions: exactly n of them
  for n up to 3, and the three hard-coded ones above that.
\<close>

theorem fallback_size:
  assumes "generateQuestionsSchema_validate b = Inr v"
    and "cache_get js r (cacheKey_of v) = Inr cached" and "\<not> truthy cached"
    and "generator_fails gen (v_questionCount v)"
  shows "\<exists>qs. generate_questions js r b gen = Inr (fallback_response b, r)
       \<and> res_questions (fallback_response b) = Some (JArr qs)
       \<and> int (length qs) = min (v_questionCount v) 3
       \<and> (v_questionCount v \<le> 3 \<longrightarrow> int (length qs) = v_questionCount v)"
  using generate_questions_fallback [OF assms] valid_questionCount [OF assms(1)]
    length_getFallbackQuestions [of "v_questionCount v"]
  by (simp add: fallback_response_def empty_response_def)

theorem fallback_size_witness:
  "generateQuestionsSchema_validate (simple_body (replicate 120 CHR ''a'') 2)
      = Inr (with_defaults (simple_body (replicate 120 CHR ''a'') 2))
   \<and> cache_get lib_unused redis_absent
        (cacheKey_of (with_defaults (simple_body (replicate 120 CHR ''a'') 2))) = Inr JNull
   \<and> \<not> truthy JNull
   \<and> generator_fails (GenReturns (Inr (JArr [])))
        (v_questionCount (with_defaults (simple_body (replicate 120 CHR ''a'') 2)))
   \<and> generate_questions lib_unused redis_absent (simple_body (replicate 120 CHR ''a'') 2)
        (GenReturns (Inr (JArr [])))
       = Inr (fallback_response (simple_body (replicate 120 CHR ''a'') 2), redis_absent)
   \<and> res_questions (fallback_response (simple_body (replicate 120 CHR ''a'') 2))
       = Some (JArr (getFallbackQuestions 2))
   \<and> length (getFallbackQuestions 2) = 2"
proof -
  have v: "generateQuestionsSchema_validate (simple_body (replicate 120 CHR ''a'') 2)
      = Inr (with_defaults (simple_body (replicate 120 CHR ''a'') 2))"
    by (rule simple_body_valid) simp_all
  have t: "\<not> truthy JNull" by simp
  have f: "generator_fails (GenReturns (Inr (JArr [])))
             (v_questionCount (with_defaults (simple_body (replicate 120 CHR ''a'') 2)))"
    by (rule generator_fails_cases)
  have n: "v_questionCount (with_defaults (simple_body (replicate 120 CHR ''a'') 2)) = 2"
    by (simp add: with_defaults_def simple_body_def)
  have q: "res_questions (fallback_response (simple_body (replicate 120 CHR ''a'') 2))
       = Some (JArr (getFallbackQuestions 2))"
    by (simp add: fallback_response_def empty_response_def simple_body_def)
  from fallback_size [OF v cache_get_absent t f] v cache_get_absent t f n q
  show ?thesis by auto
qed

text \<open>
  C4 as stated fails: with a question count of 5 the fallback response holds 3 questions.
\<close>

theorem fallback_size_five:
  "generate_questions lib_unused redis_absent (simple_body (replicate 120 CHR ''a'') 5)
     (GenThrows (Error ''fetch failed''))
     = Inr (fallback_response (simple_body (replicate 120 CHR ''a'') 5), redis_absent)
   \<and> res_questions (fallback_response (simple_body (replicate 120 CHR ''a'') 5))
       = Some (JArr fallback_questions)
   \<and> length fallback_questions = 3
   \<and> length fallback_questions \<noteq> 5"
proof -
  have v: "generateQuestionsSchema_validate (simple_body (replicate 120 CHR ''a'') 5)
      = Inr (with_defaults (simple_body (replicate 120 CHR ''a'') 5))"
    by (rule simple_body_valid) simp_all
  have t: "\<not> truthy JNull" by simp
  have f: "generator_fails (GenThrows (Error ''fetch failed''))
      (v_questionCount (with_defaults (simple_body (replicate 120 CHR ''a'') 5)))"
    by (rule generator_fails_cases)
  from generate_questions_fallback [OF v cache_get_absent t f]
  show ?thesis
    by (simp add: fallback_response_def empty_response_def getFallbackQuestions_def slice0_def
        simple_body_def fallback_questions_def)
qed

lemma constraint_violations:
  assumes "(case b_content b of None \<Rightarrow> True | Some c \<Rightarrow> length c < 100 \<or> 50000 < length c)
         \<or> (case b_questionCount b of None \<Rightarrow> False | Some n \<Rightarrow> n < 1 \<or> 10 < n)
         \<or> (case b_difficulty b of None \<Rightarrow> False | Some d \<Rightarrow> d \<notin> {''easy'', ''medium'', ''hard''})
         \<or> (case b_language b of None \<Rightarrow> False | Some l \<Rightarrow> l \<notin> {''id'', ''en''})
         \<or> (case b_attemptNumber b of None \<Rightarrow> False | Some a \<Rightarrow> a < 0)
         \<or> (case b_previousScore b of None \<Rightarrow> False | Some s \<Rightarrow> s < 0 \<or> 100 < s)"
  shows "violations b \<noteq> []"
proof -
  from assms consider
      (content) "case b_content b of None \<Rightarrow> True | Some c \<Rightarrow> length c < 100 \<or> 50000 < length c"
    | (questionCount) "case b_questionCount b of None \<Rightarrow> False | Some n \<Rightarrow> n < 1 \<or> 10 < n"
    | (difficulty) "case b_difficulty b of None \<Rightarrow> False | Some d \<Rightarrow> d \<notin> {''easy'', ''medium'', ''hard''}"
    | (language) "case b_language b of None \<Rightarrow> False | Some l \<Rightarrow> l \<notin> {''id'', ''en''}"
    | (attemptNumber) "case b_attemptNumber b of None \<Rightarrow> False | Some a \<Rightarrow> a < 0"
    | (previousScore) "case b_previousScore b of None \<Rightarrow> False | Some s \<Rightarrow> s < 0 \<or> 100 < s"
    by blast
  then show ?thesis
  proof cases
    case content
    then have "joi_string ''content'' True (Some 100) (Some 50000) (b_content b) \<noteq> []"
      by (auto simp: joi_string_def split: option.splits)
    then show ?thesis by (simp add: violations_def)
  next
    case questionCount
    then have "joi_integer ''questionCount'' (Some 1) (Some 10) (b_questionCount b) \<noteq> []"
      by (auto simp: joi_integer_def split: option.splits)
    then show ?thesis by (simp add: violations_def)
  next
    case difficulty
    then have "joi_valid ''difficulty'' [''easy'', ''medium'', ''hard''] (b_difficulty b) \<noteq> []"
      by (auto simp: joi_valid_def split: option.splits)
    then show ?thesis by (simp add: violations_def)
  next
    case language
    then have "joi_valid ''language'' [''id'', ''en''] (b_language b) \<noteq> []"
      by (auto simp: joi_valid_def split: option.splits)
    then show ?thesis by (simp add: violations_def)
  next
    case attemptNumber
    then have "joi_integer ''attemptNumber'' (Some 0) None (b_attemptNumber b) \<noteq> []"
      by (auto simp: joi_integer_def split: option.splits)
    then show ?thesis by (simp add: violations_def)
  next
    case previousScore
    then have "joi_integer ''previousScore'' (Some 0) (Some 100) (b_previousScore b) \<noteq> []"
      by (auto simp: joi_integer_def split: option.splits)
    then show ?thesis by (simp add: violations_def)
  qed
qed

text \<open>
  C5 (as the code has it). A request that violates a field constraint (content shorter
  than 100 or longer than 50000 characters or absent, question count outside 1..10,
  difficulty or language outside its values, negative attempt number, previous score
  outside 0..100) is rejected with status 400 and a validation error; the details hold
  one entry, for the first violation in the order of the schema.
\<close>

theorem validation_first_violation:
  assumes "(case b_content b of None \<Rightarrow> True | Some c \<Rightarrow> length c < 100 \<or> 50000 < length c)
         \<or> (case b_questionCount b of None \<Rightarrow> False | Some n \<Rightarrow> n < 1 \<or> 10 < n)
         \<or> (case b_difficulty b of None \<Rightarrow> False | Some d \<Rightarrow> d \<notin> {''easy'', ''medium'', ''hard''})
         \<or> (case b_language b of None \<Rightarrow> False | Some l \<Rightarrow> l \<notin> {''id'', ''en''})
         \<or> (case b_attemptNumber b of None \<Rightarrow> False | Some a \<Rightarrow> a < 0)
         \<or> (case b_previousScore b of None \<Rightarrow> False | Some s \<Rightarrow> s < 0 \<or> 100 < s)"
  shows "violations b \<noteq> []
       \<and> generate_questions js r b gen = Inr (validation_response [hd (violations b)], r)
       \<and> res_status (validation_response [hd (violations b)]) = 400
       \<and> res_error (validation_response [hd (violations b)]) = Some ''Validation error''
       \<and> res_details (validation_response [hd (violations b)]) = Some [hd (violations b)]
       \<and> res_questions (validation_response [hd (violations b)]) = None"
proof -
  from assms have "violations b \<noteq> []" by (rule constraint_violations)
  then show ?thesis
    by (simp add: generate_questions_invalid validation_response_def empty_response_def)
qed

theorem validation_first_violation_witness:
  "(case b_questionCount (simple_body ''too short'' 0) of None \<Rightarrow> False | Some n \<Rightarrow> n < 1 \<or> 10 < n)
   \<and> generate_questions lib_unused redis_empty (simple_body ''too short'' 0) (GenReturns (Inr (JArr [])))
       = Inr (validation_response [Violation ''content'' ''string.min''], redis_empty)
   \<and> res_status (validation_response [Violation ''content'' ''string.min'']) = 400"
proof -
  have h: "(case b_questionCount (simple_body ''too short'' 0) of None \<Rightarrow> False | Some n \<Rightarrow> n < 1 \<or> 10 < n)"
    by (simp add: simple_body_def)
  have v: "violations (simple_body ''too short'' 0)
       = [Violation ''content'' ''string.min'', Violation ''questionCount'' ''number.min'']"
    by (simp add: violations_def simple_body_def joi_string_def joi_integer_def joi_valid_def
        MAX_SAFE_INTEGER_def)
  from validation_first_violation [of "simple_body ''too short'' 0" lib_unused redis_empty
      "GenReturns (Inr (JArr []))"] h v
  show ?thesis by simp
qed

text \<open>
  C5 as stated fails: a request with a content that is too short and a question count
  of 0 violates two constraints, and the details list the content only.
\<close>

theorem validation_lists_one:
  "generate_questions lib_unused redis_absent (simple_body ''too short'' 0) (GenThrows (Error ''unused''))
     = Inr (validation_response [Violation ''content'' ''string.min''], redis_absent)
   \<and> res_details (validation_response [Violation ''content'' ''string.min''])
       = Some [Violation ''content'' ''string.min'']
   \<and> violations (simple_body ''too short'' 0)
       = [Violation ''content'' ''string.min'', Violation ''questionCount'' ''number.min'']
   \<and> Violation ''questionCount'' ''number.min'' \<notin> set [Violation ''content'' ''string.min'']"
proof -
  have v: "violations (simple_body ''too short'' 0)
       = [Violation ''content'' ''string.min'', Violation ''questionCount'' ''number.min'']"
    by (simp add: violations_def simple_body_def joi_string_def joi_integer_def joi_valid_def
        MAX_SAFE_INTEGER_def)
  then have "violations (simple_body ''too short'' 0) \<noteq> []" by simp
  from generate_questions_invalid [OF this] v show ?thesis
    by (simp add: validation_response_def empty_response_def)
qed

text \<open>
  C9. The body that the API service posts has no attemptNumber, previousScore or userId
  (nor a key outside the schema, such as tutorialTitle), whatever the request holds. So
  the validated request has attempt number 0, no previous score and no user; the
  backend keeps the difficulty it receives, and the cache key ends with attempt 0 and
  the user anonymous.
\<close>

theorem client_drops_retry_fields:
  "b_attemptNumber (generateQuestions_body request) = None
   \<and> b_previousScore (generateQuestions_body request) = None
   \<and> b_userId (generateQuestions_body request) = None
   \<and> b_unknown (generateQuestions_body request) = []
   \<and> b_content (generateQuestions_body request) = Some (r_content request)
   \<and> (\<forall>v. generateQuestionsSchema_validate (generateQuestions_body request) = Inr v \<longrightarrow>
          v_attemptNumber v = 0 \<and> v_previousScore v = None \<and> v_userId v = None
        \<and> adjusted_of v = v_difficulty v
        \<and> cacheKey_of v = ''questions:'' @ contentHash (r_content request) @ '':'' @ v_difficulty v
              @ '':'' @ num_str (v_questionCount v) @ '':0:anonymous'')"
proof -
  have "v_attemptNumber v = 0 \<and> v_previousScore v = None \<and> v_userId v = None
        \<and> adjusted_of v = v_difficulty v
        \<and> cacheKey_of v = ''questions:'' @ contentHash (r_content request) @ '':'' @ v_difficulty v
              @ '':'' @ num_str (v_questionCount v) @ '':0:anonymous''"
    if "generateQuestionsSchema_validate (generateQuestions_body request) = Inr v" for v
  proof -
    from that have v: "v = with_defaults (generateQuestions_body request)"
      by (auto simp: generateQuestionsSchema_validate_def joi_validate_def split: list.splits)
    have z: "num_str 0 = ''0''"
      by code_simp
    show ?thesis
      by (simp add: v with_defaults_def generateQuestions_body_def adjusted_of_def cacheKey_of_def
          adjustedDifficulty_def cacheKey_def z)
  qed
  then show ?thesis by (simp add: generateQuestions_body_def)
qed

theorem client_drops_retry_fields_witness:
  "r_attemptNumber (handleTryAgain_request (replicate 120 CHR ''a'') ''AI'' ''medium'' 100 0 ''user-1'') = Some 1
   \<and> r_previousScore (handleTryAgain_request (replicate 120 CHR ''a'') ''AI'' ''medium'' 100 0 ''user-1'') = Some 100
   \<and> r_userId (handleTryAgain_request (replicate 120 CHR ''a'') ''AI'' ''medium'' 100 0 ''user-1'') = Some ''user-1''
   \<and> generateQuestionsSchema_validate
        (generateQuestions_body (handleTryAgain_request (replicate 120 CHR ''a'') ''AI'' ''medium'' 100 0 ''user-1''))
       = Inr (with_defaults
           (generateQuestions_body (handleTryAgain_request (replicate 120 CHR ''a'') ''AI'' ''medium'' 100 0 ''user-1'')))
   \<and> v_attemptNumber (with_defaults
        (generateQuestions_body (handleTryAgain_request (replicate 120 CHR ''a'') ''AI'' ''medium'' 100 0 ''user-1''))) = 0
   \<and> v_previousScore (with_defaults
        (generateQuestions_body (handleTryAgain_request (replicate 120 CHR ''a'') ''AI'' ''medium'' 100 0 ''user-1''))) = None
   \<and> v_userId (with_defaults
        (generateQuestions_body (handleTryAgain_request (replicate 120 CHR ''a'') ''AI'' ''medium'' 100 0 ''user-1''))) = None
   \<and> adjusted_of (with_defaults
        (generateQuestions_body (handleTryAgain_request (replicate 120 CHR ''a'') ''AI'' ''medium'' 100 0 ''user-1'')))
       = ''hard''"
proof -
  have v: "generateQuestionsSchema_validate
        (generateQuestions_body (handleTryAgain_request (replicate 120 CHR ''a'') ''AI'' ''medium'' 100 0 ''user-1''))
       = Inr (with_defaults
           (generateQuestions_body (handleTryAgain_request (replicate 120 CHR ''a'') ''AI'' ''medium'' 100 0 ''user-1'')))"
    by (simp add: generateQuestionsSchema_validate_def joi_validate_def violations_def
        generateQuestions_body_def handleTryAgain_request_def nextDifficulty_def
        joi_string_def joi_integer_def joi_valid_def MAX_SAFE_INTEGER_def)
  have d: "v_difficulty (with_defaults
        (generateQuestions_body (handleTryAgain_request (replicate 120 CHR ''a'') ''AI'' ''medium'' 100 0 ''user-1'')))
       = ''hard''"
    by (simp add: with_defaults_def generateQuestions_body_def handleTryAgain_request_def
        nextDifficulty_def)
  from client_drops_retry_fields
      [of "handleTryAgain_request (replicate 120 CHR ''a'') ''AI'' ''medium'' 100 0 ''user-1''"] v d
  show ?thesis by (simp add: handleTryAgain_request_def)
qed

end
